theory Spec2Isabelle
  imports
    Complex_Main
    "HOL-Library.Multiset"
    "HOL-Library.Char_ord"
    "HOL-Library.List_Lexorder"
begin

section \<open>The A/B test tool for proportions (src/ab_test_stats.py)\<close>

text \<open>
  The class \<open>ABTestProportionsTool\<close> holds a pandas DataFrame, the names of three of its
  columns and a significance level. Its methods add the column \<open>positive_count\<close> to the
  frame, run a two-proportion z-test (two groups) or a chi-square test with post-hoc
  pairwise z-tests (any other number of groups), and label each p-value.

  The two statistical routines, \<open>proportions_ztest\<close> (statsmodels) and
  \<open>chi2_contingency\<close> (scipy), are libraries: they are parameters of the model, and
  each may raise or return any pair of floats.
\<close>

subsection \<open>Numbers\<close>

text \<open>
  A Python float that a library returns is a real number or one of the three special
  values; comparisons with NaN are false. Rounding of the arithmetic is not modelled:
  the finite floats are the reals. Integers are unbounded; the 64-bit range of the
  frame's integer columns is not modelled.
\<close>

datatype pyfloat = NaN | NInf | Fin real | PInf

fun float_lt :: "pyfloat \<Rightarrow> real \<Rightarrow> bool" where
  "float_lt NaN a = False"
| "float_lt NInf a = True"
| "float_lt (Fin x) a = (x < a)"
| "float_lt PInf a = False"

fun float_ge :: "pyfloat \<Rightarrow> real \<Rightarrow> bool" where
  "float_ge NaN a = False"
| "float_ge NInf a = False"
| "float_ge (Fin x) a = (a \<le> x)"
| "float_ge PInf a = True"

fun float_gt :: "pyfloat \<Rightarrow> real \<Rightarrow> bool" where
  "float_gt NaN a = False"
| "float_gt NInf a = False"
| "float_gt (Fin x) a = (a < x)"
| "float_gt PInf a = True"

text \<open>\<open>Series.round()\<close> rounds to the nearest integer, a tie to the even neighbour.\<close>

definition round_half_even :: "real \<Rightarrow> int" where
  "round_half_even x =
     (let f = \<lfloor>x\<rfloor>; d = x - of_int f
      in if d < 1 / 2 then f
         else if 1 / 2 < d then f + 1
         else if even f then f else f + 1)"

subsection \<open>The frame, the tool and the results\<close>

text \<open>
  A row of the frame: the cells of the columns named by \<open>group_col\<close>,
  \<open>positive_rate_col\<close> and \<open>total_col\<close>, and the cell of the column
  \<open>positive_count\<close>, which is \<open>None\<close> in every row while the frame has no such column.
  The three named columns are taken to be other columns than \<open>positive_count\<close>.
  The tool keeps the frame, \<open>alpha\<close> and \<open>self.results\<close> (\<open>None\<close> until a run
  has returned); the column names are not stored, the columns they name being the
  fields of a row. An exception is a value of \<open>error\<close>; \<open>LibraryError\<close> stands for
  whatever a library routine raises.
\<close>

record row =
  group :: string
  positive_rate :: real
  total :: int
  positive_count :: "int option"

datatype error =
    ValueError string
  | KeyError string
  | IndexError
  | LibraryError string

record pair_result =
  group1 :: string
  group2 :: string
  pair_statistic :: pyfloat
  pair_p_value :: pyfloat
  pair_significance :: string

record test_result =
  statistic :: pyfloat
  p_value :: pyfloat
  significance :: string
  pairwise :: "pair_result list option"

record run_result =
  test_used :: string
  results :: test_result

record tool =
  data :: "row list"
  alpha :: real
  self_results :: "run_result option"

type_synonym ztest = "int list \<Rightarrow> int list \<Rightarrow> error + pyfloat \<times> pyfloat"
type_synonym chi2test = "int list list \<Rightarrow> error + pyfloat \<times> pyfloat"

subsection \<open>The Aggregator: \<open>calculate_counts\<close>\<close>

text \<open>
  Lines 30-31: the column \<open>positive_count\<close> is assigned
  \<open>(rate / 100) * total\<close>, rounded and cast to an integer, in every row.
\<close>

definition count_of :: "row \<Rightarrow> int" where
  "count_of r = round_half_even (positive_rate r / 100 * of_int (total r))"

definition calculate_counts :: "tool \<Rightarrow> tool" where
  "calculate_counts self =
     self\<lparr>data := map (\<lambda>r. r\<lparr>positive_count := Some (count_of r)\<rparr>) (data self)\<rparr>"

subsection \<open>Frame operations\<close>

text \<open>\<open>Series.unique()\<close>: the distinct values in order of first appearance.\<close>

fun unique :: "'a list \<Rightarrow> 'a list" where
  "unique [] = []"
| "unique (x # xs) = x # unique (removeAll x xs)"

text \<open>
  \<open>groupby(group_col).sum()\<close> and \<open>pivot_table(index=group_col, aggfunc="sum")\<close>: one
  entry per group label, sorted by label, with the sums of \<open>positive_count\<close> and of
  the totals over all rows of the group. Reading the column \<open>positive_count\<close> of a frame
  that has none is a KeyError.
\<close>

fun read_counts :: "row list \<Rightarrow> error + (string \<times> int \<times> int) list" where
  "read_counts [] = Inr []"
| "read_counts (r # rs) =
     (case positive_count r of
        None \<Rightarrow> Inl (KeyError ''positive_count'')
      | Some c \<Rightarrow>
          (case read_counts rs of
             Inl e \<Rightarrow> Inl e
           | Inr cs \<Rightarrow> Inr ((group r, c, total r) # cs)))"

definition group_sum :: "(string \<times> int \<times> int) list \<Rightarrow> string \<Rightarrow> int \<times> int" where
  "group_sum cs g =
     (sum_list (map (\<lambda>(l, c, n). c) (filter (\<lambda>(l, c, n). l = g) cs)),
      sum_list (map (\<lambda>(l, c, n). n) (filter (\<lambda>(l, c, n). l = g) cs)))"

definition groupby_sum :: "row list \<Rightarrow> error + (string \<times> int \<times> int) list" where
  "groupby_sum ds =
     (case read_counts ds of
        Inl e \<Rightarrow> Inl e
      | Inr cs \<Rightarrow> Inr (map (\<lambda>g. (g, group_sum cs g)) (sort (unique (map group ds)))))"

text \<open>\<open>table.loc[labels, column]\<close>: the entries of the labels, in the labels' order.\<close>

fun loc :: "(string \<times> 'v) list \<Rightarrow> string list \<Rightarrow> error + 'v list" where
  "loc tbl [] = Inr []"
| "loc tbl (g # gs) =
     (case map_of tbl g of
        None \<Rightarrow> Inl (KeyError g)
      | Some v \<Rightarrow>
          (case loc tbl gs of
             Inl e \<Rightarrow> Inl e
           | Inr vs \<Rightarrow> Inr (v # vs)))"

text \<open>\<open>itertools.combinations(labels, 2)\<close>.\<close>

fun combinations2 :: "'a list \<Rightarrow> ('a \<times> 'a) list" where
  "combinations2 [] = []"
| "combinations2 (x # xs) = map (Pair x) xs @ combinations2 xs"

subsection \<open>The Two-Group Tester: \<open>test_two_groups\<close>\<close>

text \<open>
  Lines 40-59. The check of the number of labels comes first. The variable
  \<open>significance\<close> is assigned three times (lines 50-58); the last assignment is the one
  returned.
\<close>

definition two_groups_message :: string where
  "two_groups_message =
     ''This method is only for two groups. Use `test_multiple_groups` for more than two groups.''"

definition greater_message :: "string \<Rightarrow> string \<Rightarrow> string" where
  "greater_message g h =
     ''Group '' @ [CHR 0x27] @ g @ [CHR 0x27] @ '' is significantly greater than ''
       @ [CHR 0x27] @ h @ [CHR 0x27]"

definition test_two_groups :: "ztest \<Rightarrow> tool \<Rightarrow> error + string \<times> test_result" where
  "test_two_groups zt self =
     (case unique (map group (data self)) of
        [g0, g1] \<Rightarrow>
          (case groupby_sum (data self) of
             Inl e \<Rightarrow> Inl e
           | Inr group_data \<Rightarrow>
               (case loc (map (\<lambda>(g, c, n). (g, c)) group_data) [g0, g1] of
                  Inl e \<Rightarrow> Inl e
                | Inr cnt \<Rightarrow>
                    (case loc (map (\<lambda>(g, c, n). (g, n)) group_data) [g0, g1] of
                       Inl e \<Rightarrow> Inl e
                     | Inr nobs \<Rightarrow>
                         (case zt cnt nobs of
                            Inl e \<Rightarrow> Inl e
                          | Inr (stat, p) \<Rightarrow>
                              (let significance =
                                     (if float_gt stat 0 then greater_message g0 g1
                                      else greater_message g1 g0);
                                   significance =
                                     (if float_ge p (alpha self)
                                      then ''No significant difference between groups''
                                      else significance);
                                   significance =
                                     (if float_lt p (alpha self) then ''significant''
                                      else ''not significant'')
                               in Inr (''Proportions Z-Test'',
                                       \<lparr>statistic = stat, p_value = p,
                                        significance = significance, pairwise = None\<rparr>))))))
      | _ \<Rightarrow> Inl (ValueError two_groups_message))"

subsection \<open>The Post-Hoc Comparator: \<open>post_hoc_test\<close>\<close>

text \<open>
  Lines 96-123. \<open>frame[frame[group_col] == g][column].values[0]\<close> is the cell in the first
  row of the group; the loop appends one result per pair, and an exception ends it.
\<close>

definition first_count :: "row list \<Rightarrow> string \<Rightarrow> error + int" where
  "first_count ds g =
     (case filter (\<lambda>r. group r = g) ds of
        [] \<Rightarrow> Inl IndexError
      | r # _ \<Rightarrow>
          (case positive_count r of
             None \<Rightarrow> Inl (KeyError ''positive_count'')
           | Some c \<Rightarrow> Inr c))"

definition first_total :: "row list \<Rightarrow> string \<Rightarrow> error + int" where
  "first_total ds g =
     (case filter (\<lambda>r. group r = g) ds of
        [] \<Rightarrow> Inl IndexError
      | r # _ \<Rightarrow> Inr (total r))"

definition pair_test :: "ztest \<Rightarrow> tool \<Rightarrow> string \<Rightarrow> string \<Rightarrow> error + pair_result" where
  "pair_test zt self g1 g2 =
     (case first_count (data self) g1 of
        Inl e \<Rightarrow> Inl e
      | Inr c1 \<Rightarrow>
     (case first_count (data self) g2 of
        Inl e \<Rightarrow> Inl e
      | Inr c2 \<Rightarrow>
     (case first_total (data self) g1 of
        Inl e \<Rightarrow> Inl e
      | Inr n1 \<Rightarrow>
     (case first_total (data self) g2 of
        Inl e \<Rightarrow> Inl e
      | Inr n2 \<Rightarrow>
     (case zt [c1, c2] [n1, n2] of
        Inl e \<Rightarrow> Inl e
      | Inr (stat, p) \<Rightarrow>
          Inr \<lparr>group1 = g1, group2 = g2, pair_statistic = stat, pair_p_value = p,
               pair_significance =
                 (if float_lt p (alpha self) then ''significant''
                  else ''not significant'')\<rparr>)))))"

fun post_hoc_loop ::
  "ztest \<Rightarrow> tool \<Rightarrow> (string \<times> string) list \<Rightarrow> error + pair_result list" where
  "post_hoc_loop zt self [] = Inr []"
| "post_hoc_loop zt self ((g1, g2) # ps) =
     (case pair_test zt self g1 g2 of
        Inl e \<Rightarrow> Inl e
      | Inr r \<Rightarrow>
          (case post_hoc_loop zt self ps of
             Inl e \<Rightarrow> Inl e
           | Inr rs \<Rightarrow> Inr (r # rs)))"

definition post_hoc_test :: "ztest \<Rightarrow> tool \<Rightarrow> error + pair_result list" where
  "post_hoc_test zt self =
     post_hoc_loop zt self (combinations2 (unique (map group (data self))))"

subsection \<open>The Multi-Group Tester: \<open>test_multiple_groups\<close>\<close>

text \<open>
  Lines 68-88. The observed table has one row \<open>[positive_count, negative_count]\<close> per
  label, in the sorted order of the pivot table. The key \<open>pairwise\<close> is present in the
  result exactly when the post-hoc comparison ran.
\<close>

definition observed_table :: "(string \<times> int \<times> int) list \<Rightarrow> int list list" where
  "observed_table contingency_table = map (\<lambda>(g, c, n). [c, n - c]) contingency_table"

definition test_multiple_groups ::
  "chi2test \<Rightarrow> ztest \<Rightarrow> tool \<Rightarrow> error + string \<times> test_result" where
  "test_multiple_groups chi zt self =
     (case groupby_sum (data self) of
        Inl e \<Rightarrow> Inl e
      | Inr contingency_table \<Rightarrow>
          (case chi (observed_table contingency_table) of
             Inl e \<Rightarrow> Inl e
           | Inr (chi2, p) \<Rightarrow>
               (let significance =
                      (if float_lt p (alpha self) then ''significant''
                       else ''not significant'');
                    results = \<lparr>statistic = chi2, p_value = p,
                               significance = significance, pairwise = None\<rparr>
                in if float_lt p (alpha self)
                   then (case post_hoc_test zt self of
                           Inl e \<Rightarrow> Inl e
                         | Inr pairwise_results \<Rightarrow>
                             Inr (''Chi-Square Test'',
                                  results\<lparr>pairwise := Some pairwise_results\<rparr>))
                   else Inr (''Chi-Square Test'', results))))"

subsection \<open>The Orchestrator: \<open>run\<close>\<close>

text \<open>
  \<open>run\<close> returns its outcome and the tool as it leaves it: the frame with the counts
  written, and \<open>self.results\<close> assigned when no exception was raised.
\<close>

definition run :: "chi2test \<Rightarrow> ztest \<Rightarrow> tool \<Rightarrow> (error + run_result) \<times> tool" where
  "run chi zt self =
     (let self1 = calculate_counts self;
          groups = unique (map group (data self1))
      in case (if length groups = 2 then test_two_groups zt self1
               else test_multiple_groups chi zt self1) of
           Inl e \<Rightarrow> (Inl e, self1)
         | Inr (name, res) \<Rightarrow>
             (let rr = \<lparr>test_used = name, results = res\<rparr>
              in (Inr rr, self1\<lparr>self_results := Some rr\<rparr>)))"

subsection \<open>Sample data and sample library behaviour\<close>

text \<open>
  Concrete inputs on which the theorems below are instantiated. The two sample routines
  stand for one possible behaviour of the libraries, with rational values: they raise
  on ill-shaped input, and the z-test returns NaN where a total is zero. The general
  theorems quantify over all routines.
\<close>

definition sample_ztest :: ztest where
  "sample_ztest cnt nobs =
     (case (cnt, nobs) of
        ([c0, c1], [n0, n1]) \<Rightarrow>
          if n0 = 0 \<or> n1 = 0 then Inr (NaN, NaN)
          else Inr (Fin (of_int c0 / of_int n0 - of_int c1 / of_int n1),
                    Fin (1 - \<bar>of_int c0 / of_int n0 - of_int c1 / of_int n1\<bar>))
      | _ \<Rightarrow> Inl (LibraryError ''two samples expected''))"

definition sample_chi2 :: chi2test where
  "sample_chi2 observed =
     (if observed = [] then Inl (LibraryError ''no data'')
      else Inr (Fin (of_nat (length observed)), Fin (1 / 100)))"

definition mk_row :: "string \<Rightarrow> real \<Rightarrow> int \<Rightarrow> row" where
  "mk_row g rate n = \<lparr>group = g, positive_rate = rate, total = n, positive_count = None\<rparr>"

definition mk_tool :: "row list \<Rightarrow> tool" where
  "mk_tool ds = \<lparr>data = ds, alpha = 5 / 100, self_results = None\<rparr>"

subsection \<open>Notions used to state the properties\<close>

text \<open>
  The sum of a column over all rows of one group, and the first row of a group.
\<close>

definition sum_over_group :: "(row \<Rightarrow> int) \<Rightarrow> row list \<Rightarrow> string \<Rightarrow> int" where
  "sum_over_group f ds g = sum_list (map f (filter (\<lambda>r. group r = g) ds))"

definition first_row_of :: "row list \<Rightarrow> string \<Rightarrow> row" where
  "first_row_of ds g = hd (filter (\<lambda>r. group r = g) ds)"

text \<open>
  The table of per-group sums, one row \<open>[positive, negative]\<close> per label in sorted
  order, and the pairs \<open>(xs ! i, xs ! j)\<close> with \<open>i < j\<close>, by increasing \<open>i\<close> and
  then \<open>j\<close>.
\<close>

definition summed_table :: "(row \<Rightarrow> int) \<Rightarrow> row list \<Rightarrow> int list list" where
  "summed_table c ds =
     map (\<lambda>g. [sum_over_group c ds g, sum_over_group total ds g - sum_over_group c ds g])
       (sort (unique (map group ds)))"

definition index_pairs :: "'a list \<Rightarrow> ('a \<times> 'a) list" where
  "index_pairs xs =
     concat (map (\<lambda>i. map (\<lambda>j. (xs ! i, xs ! j)) [Suc i..<length xs]) [0..<length xs])"

text \<open>
  What each tester makes of the outcome of its library routine: an exception is passed
  on, a statistic and a p-value are stored with the label of the p-value.
\<close>

definition two_group_outcome ::
  "real \<Rightarrow> error + pyfloat \<times> pyfloat \<Rightarrow> error + string \<times> test_result" where
  "two_group_outcome a y =
     (case y of
        Inl e \<Rightarrow> Inl e
      | Inr (s, p) \<Rightarrow>
          Inr (''Proportions Z-Test'',
               \<lparr>statistic = s, p_value = p,
                significance = (if float_lt p a then ''significant'' else ''not significant''),
                pairwise = None\<rparr>))"

definition pair_outcome ::
  "real \<Rightarrow> string \<Rightarrow> string \<Rightarrow> error + pyfloat \<times> pyfloat \<Rightarrow> error + pair_result" where
  "pair_outcome a g1 g2 y =
     (case y of
        Inl e \<Rightarrow> Inl e
      | Inr (s, p) \<Rightarrow>
          Inr \<lparr>group1 = g1, group2 = g2, pair_statistic = s, pair_p_value = p,
               pair_significance =
                 (if float_lt p a then ''significant'' else ''not significant'')\<rparr>)"

definition multi_group_outcome ::
  "real \<Rightarrow> error + pyfloat \<times> pyfloat \<Rightarrow> error + pair_result list \<Rightarrow>
     error + string \<times> test_result" where
  "multi_group_outcome a y ph =
     (case y of
        Inl e \<Rightarrow> Inl e
      | Inr (x2, p) \<Rightarrow>
          if float_lt p a
          then (case ph of
                  Inl e \<Rightarrow> Inl e
                | Inr prs \<Rightarrow>
                    Inr (''Chi-Square Test'',
                         \<lparr>statistic = x2, p_value = p, significance = ''significant'',
                          pairwise = Some prs\<rparr>))
          else Inr (''Chi-Square Test'',
                    \<lparr>statistic = x2, p_value = p, significance = ''not significant'',
                     pairwise = None\<rparr>))"

definition wrap_result :: "string \<Rightarrow> error + string \<times> test_result \<Rightarrow> error + run_result" where
  "wrap_result name y =
     (case y of
        Inl e \<Rightarrow> Inl e
      | Inr (n, res) \<Rightarrow> Inr \<lparr>test_used = name, results = res\<rparr>)"

text \<open>
  Modelled from the spec: \<open>proportions_ztest\<close> belongs to statsmodels and is not part
  of the source. Section 4.2 of the spec describes it as the two-sample proportion
  z-test with the pooled-proportion statistic \<open>z\<close> and the two-sided p-value for
  \<open>p1 = p2\<close>. \<open>pooled_z\<close> is that statistic over the reals, \<open>valid_counts\<close> are the
  counts on which it is defined (totals positive, counts within the totals, the pooled
  proportion strictly between 0 and 1), and a routine implements the test when it
  returns \<open>z\<close> and \<open>2 * tail \<bar>z\<bar>\<close> on valid counts, \<open>tail\<close> being the upper tail
  function of the reference distribution.
\<close>

definition pooled_z :: "int \<Rightarrow> int \<Rightarrow> int \<Rightarrow> int \<Rightarrow> real" where
  "pooled_z c0 c1 n0 n1 =
     (let p0 = of_int c0 / of_int n0;
          p1 = of_int c1 / of_int n1;
          p_pooled = of_int (c0 + c1) / of_int (n0 + n1);
          var = p_pooled * (1 - p_pooled) * (1 / of_int n0 + 1 / of_int n1)
      in (p0 - p1) / sqrt var)"

definition valid_counts :: "int \<Rightarrow> int \<Rightarrow> int \<Rightarrow> int \<Rightarrow> bool" where
  "valid_counts c0 c1 n0 n1 =
     (0 \<le> c0 \<and> c0 \<le> n0 \<and> 0 \<le> c1 \<and> c1 \<le> n1 \<and> 0 < n0 \<and> 0 < n1 \<and>
      0 < c0 + c1 \<and> c0 + c1 < n0 + n1)"

definition implements_pooled_ztest :: "(real \<Rightarrow> real) \<Rightarrow> ztest \<Rightarrow> bool" where
  "implements_pooled_ztest tail zt =
     (\<forall>c0 c1 n0 n1. valid_counts c0 c1 n0 n1 \<longrightarrow>
        zt [c0, c1] [n0, n1] =
          Inr (Fin (pooled_z c0 c1 n0 n1), Fin (2 * tail \<bar>pooled_z c0 c1 n0 n1\<bar>)))"

text \<open>
  A routine that implements the pooled test. Outside the valid counts it returns NaN
  for both numbers and raises nothing; for a zero total that is what the division of
  numpy arrays yields (nan or inf with a warning, no exception). \<open>sample_tail\<close> is a
  decreasing function standing in for the normal tail.
\<close>

definition reference_ztest :: "(real \<Rightarrow> real) \<Rightarrow> ztest" where
  "reference_ztest tail cnt nobs =
     (case (cnt, nobs) of
        ([c0, c1], [n0, n1]) \<Rightarrow>
          if valid_counts c0 c1 n0 n1
          then Inr (Fin (pooled_z c0 c1 n0 n1), Fin (2 * tail \<bar>pooled_z c0 c1 n0 n1\<bar>))
          else Inr (NaN, NaN)
      | _ \<Rightarrow> Inl (LibraryError ''two samples expected''))"

definition sample_tail :: "real \<Rightarrow> real" where
  "sample_tail x = 1 / (2 * (1 + x))"

text \<open>Frames with the counts written: three groups, a repeated label, two orders.\<close>

definition three_groups :: tool where
  "three_groups =
     calculate_counts (mk_tool [mk_row ''C'' 25 1000, mk_row ''A'' 5 1000, mk_row ''B'' 5 1000])"

definition three_result :: test_result where
  "three_result =
     \<lparr>statistic = Fin 3, p_value = Fin (1 / 100), significance = ''significant'',
      pairwise = Some
        [\<lparr>group1 = ''C'', group2 = ''A'', pair_statistic = Fin (1 / 5),
          pair_p_value = Fin (4 / 5), pair_significance = ''not significant''\<rparr>,
         \<lparr>group1 = ''C'', group2 = ''B'', pair_statistic = Fin (1 / 5),
          pair_p_value = Fin (4 / 5), pair_significance = ''not significant''\<rparr>,
         \<lparr>group1 = ''A'', group2 = ''B'', pair_statistic = Fin 0,
          pair_p_value = Fin 1, pair_significance = ''not significant''\<rparr>]\<rparr>"

definition repeated_group :: tool where
  "repeated_group =
     calculate_counts (mk_tool [mk_row ''A'' 10 100, mk_row ''B'' 20 100, mk_row ''A'' 50 100])"

definition swap_rows_A :: tool where
  "swap_rows_A = calculate_counts (mk_tool [mk_row ''A'' 10 1000, mk_row ''B'' 15 1000])"

definition swap_rows_B :: tool where
  "swap_rows_B = calculate_counts (mk_tool [mk_row ''B'' 15 1000, mk_row ''A'' 10 1000])"

section \<open>Properties\<close>

subsection \<open>Auxiliary facts\<close>


lemma set_unique: "set (unique xs) = set xs"
  by (induction xs rule: unique.induct) auto

lemma distinct_unique: "distinct (unique xs)"
  by (induction xs rule: unique.induct) (auto simp: set_unique)

lemma length_unique: "length (unique xs) = card (set xs)"
  using distinct_card [OF distinct_unique, of xs] by (simp add: set_unique)

lemma data_calculate_counts:
  "data (calculate_counts self) =
     map (\<lambda>r. r\<lparr>positive_count := Some (count_of r)\<rparr>) (data self)"
  by (simp add: calculate_counts_def)

lemma group_calculate_counts:
  "map group (data (calculate_counts self)) = map group (data self)"
  by (simp add: data_calculate_counts comp_def)

lemma run_tool_data: "data (snd (run chi zt self)) = data (calculate_counts self)"
  by (simp add: run_def Let_def split: sum.splits prod.splits)

lemma run_tool_alpha: "alpha (snd (run chi zt self)) = alpha self"
  by (simp add: run_def Let_def calculate_counts_def split: sum.splits prod.splits)

subsection \<open>The Aggregator\<close>






text \<open>
  C10. The frame after \<open>run\<close>, whether \<open>run\<close> returned or raised: the same number of
  rows in the same order, with the group labels, rates and totals they had. Only the
  column \<open>positive_count\<close> is written.
\<close>

theorem run_frame:
  "length (data (snd (run chi zt self))) = length (data self) \<and>
   map group (data (snd (run chi zt self))) = map group (data self) \<and>
   map positive_rate (data (snd (run chi zt self))) = map positive_rate (data self) \<and>
   map total (data (snd (run chi zt self))) = map total (data self) \<and>
   map positive_count (data (snd (run chi zt self))) = map (Some \<circ> count_of) (data self)"
  by (simp add: run_tool_data data_calculate_counts comp_def)

subsection \<open>The Two-Group Tester\<close>

text \<open>
  C3. On a frame whose number of distinct group labels is not 2, \<open>test_two_groups\<close>
  raises the ValueError that points to \<open>test_multiple_groups\<close>. It does so whatever the
  z-test routine is, also one that would raise, and whatever the other columns hold,
  also when the frame has no counts: the check precedes every read and every
  computation, and the method assigns nothing.
\<close>

theorem two_groups_cardinality_error:
  assumes "card (set (map group (data self))) \<noteq> 2"
  shows "test_two_groups zt self =
    Inl (ValueError
      ''This method is only for two groups. Use `test_multiple_groups` for more than two groups.'')"
proof -
  have "length (unique (map group (data self))) \<noteq> 2"
    using assms by (simp add: length_unique)
  then show ?thesis
    by (auto simp: test_two_groups_def two_groups_message_def split: list.splits)
qed

theorem two_groups_cardinality_error_witness:
  "test_two_groups sample_ztest
     (mk_tool [mk_row ''A'' 10 100, mk_row ''B'' 20 100, mk_row ''C'' 30 100]) =
    Inl (ValueError
      ''This method is only for two groups. Use `test_multiple_groups` for more than two groups.'')"
  using two_groups_cardinality_error [of
      "mk_tool [mk_row ''A'' 10 100, mk_row ''B'' 20 100, mk_row ''C'' 30 100]" sample_ztest]
  by (simp add: mk_tool_def mk_row_def)

subsection \<open>Reading the counts and summing per group\<close>



lemma read_counts_present:
  assumes "\<forall>r \<in> set ds. positive_count r = Some (c r)"
  shows "read_counts ds = Inr (map (\<lambda>r. (group r, c r, total r)) ds)"
  using assms by (induction ds) auto

lemma group_sum_rows:
  "group_sum (map (\<lambda>r. (group r, c r, total r)) ds) g =
     (sum_over_group c ds g, sum_over_group total ds g)"
  by (induction ds) (auto simp: group_sum_def sum_over_group_def)

lemma groupby_sum_present:
  assumes "\<forall>r \<in> set ds. positive_count r = Some (c r)"
  shows "groupby_sum ds =
     Inr (map (\<lambda>g. (g, sum_over_group c ds g, sum_over_group total ds g))
            (sort (unique (map group ds))))"
  by (simp add: groupby_sum_def read_counts_present [OF assms] group_sum_rows)

lemma map_of_keys:
  assumes "g \<in> set ks"
  shows "map_of (map (\<lambda>k. (k, f k)) ks) g = Some (f g)"
  using assms by (induction ks) auto

lemma loc_two:
  assumes "a \<in> set ks" and "b \<in> set ks"
  shows "loc (map (\<lambda>k. (k, f k)) ks) [a, b] = Inr [f a, f b]"
  using assms by (simp add: map_of_keys)


lemma sum_over_group_mset:
  assumes "mset ds' = mset ds"
  shows "sum_over_group f ds' g = sum_over_group f ds g"
proof -
  have "sum_over_group f xs g = sum_mset (image_mset f (filter_mset (\<lambda>r. group r = g) (mset xs)))"
    for xs
    unfolding sum_over_group_def
    by (simp add: sum_mset_sum_list [symmetric] del: sum_mset_sum_list)
  then show ?thesis using assms by simp
qed

lemma first_row_of_group:
  assumes "g \<in> set (map group ds)"
  shows "\<exists>rs. filter (\<lambda>r. group r = g) ds = first_row_of ds g # rs \<and> first_row_of ds g \<in> set ds"
proof -
  from assms obtain r where "r \<in> set ds" "group r = g" by auto
  then have "filter (\<lambda>r. group r = g) ds \<noteq> []"
    by (auto simp: filter_empty_conv)
  then obtain r0 rs where eq: "filter (\<lambda>r. group r = g) ds = r0 # rs"
    by (cases "filter (\<lambda>r. group r = g) ds") auto
  then have "r0 \<in> set (filter (\<lambda>r. group r = g) ds)" by simp
  then have "r0 \<in> set ds" by simp
  with eq show ?thesis by (simp add: first_row_of_def)
qed


subsection \<open>Combinations of labels\<close>

lemma length_combinations2: "length (combinations2 xs) = length xs choose 2"
  by (induction xs) (simp_all add: numeral_2_eq_2)

lemma set_combinations2: "set (combinations2 xs) \<subseteq> set xs \<times> set xs"
  by (induction xs) auto

lemma combinations2_labels:
  assumes "(a, b) \<in> set (combinations2 (unique (map group ds)))"
  shows "a \<in> set (map group ds) \<and> b \<in> set (map group ds)"
  using assms set_combinations2 [of "unique (map group ds)"]
  by (auto simp: set_unique)

lemma map_nth_Cons_upt:
  "map (\<lambda>j. (a, (x # xs) ! j)) [Suc k..<Suc n] = map (\<lambda>j. (a, xs ! j)) [k..<n]"
  by (simp add: map_Suc_upt [symmetric] del: upt_Suc)

lemma index_pairs_Cons: "index_pairs (x # xs) = map (Pair x) xs @ index_pairs xs"
proof -
  let ?F = "\<lambda>i. map (\<lambda>j. ((x # xs) ! i, (x # xs) ! j)) [Suc i..<Suc (length xs)]"
  let ?G = "\<lambda>i. map (\<lambda>j. (xs ! i, xs ! j)) [Suc i..<length xs]"
  have up: "[0..<Suc (length xs)] = 0 # map Suc [0..<length xs]"
    by (simp add: upt_conv_Cons map_Suc_upt del: upt_Suc)
  have row0: "?F 0 = map (Pair x) xs"
  proof -
    have "?F 0 = map (\<lambda>j. (x, xs ! j)) [0..<length xs]"
      using map_nth_Cons_upt [of x x xs 0 "length xs"] by simp
    also have "\<dots> = map (Pair x) (map (\<lambda>j. xs ! j) [0..<length xs])"
      by simp
    also have "\<dots> = map (Pair x) xs"
      by (simp only: map_nth)
    finally show ?thesis .
  qed
  have step: "?F (Suc i) = ?G i" for i
    using map_nth_Cons_upt [of "xs ! i" x xs "Suc i" "length xs"] by simp
  have "index_pairs (x # xs) = concat (map ?F (0 # map Suc [0..<length xs]))"
    unfolding index_pairs_def length_Cons up ..
  also have "\<dots> = ?F 0 @ concat (map (\<lambda>i. ?F (Suc i)) [0..<length xs])"
    by (simp only: list.map concat.simps map_map comp_def)
  also have "\<dots> = map (Pair x) xs @ concat (map ?G [0..<length xs])"
    by (simp only: row0 step)
  finally show ?thesis
    by (simp only: index_pairs_def)
qed

lemma combinations2_index_pairs: "combinations2 xs = index_pairs xs"
  by (induction xs) (simp_all add: index_pairs_Cons, simp add: index_pairs_def)

subsection \<open>What the testers return\<close>

lemma two_groups_label:
  assumes "test_two_groups zt self = Inr (name, res)"
  shows "name = ''Proportions Z-Test'' \<and> pairwise res = None \<and>
         significance res =
           (if float_lt (p_value res) (alpha self) then ''significant'' else ''not significant'')"
  using assms
  by (auto simp: test_two_groups_def Let_def split: list.splits sum.splits prod.splits)

lemma two_groups_eval:
  assumes cnt: "\<forall>r \<in> set (data self). positive_count r = Some (c r)"
    and two: "unique (map group (data self)) = [a, b]"
  shows "test_two_groups zt self =
     two_group_outcome (alpha self)
       (zt [sum_over_group c (data self) a, sum_over_group c (data self) b]
           [sum_over_group total (data self) a, sum_over_group total (data self) b])"
proof -
  let ?ks = "sort (unique (map group (data self)))"
  have mem: "a \<in> set ?ks" "b \<in> set ?ks"
    using two by simp_all
  have c: "loc (map (\<lambda>(g, c, n). (g, c))
              (map (\<lambda>g. (g, sum_over_group c (data self) g, sum_over_group total (data self) g)) ?ks))
            [a, b] = Inr [sum_over_group c (data self) a, sum_over_group c (data self) b]"
    using loc_two [OF mem, of "sum_over_group c (data self)"] by (simp add: comp_def)
  have n: "loc (map (\<lambda>(g, c, n). (g, n))
              (map (\<lambda>g. (g, sum_over_group c (data self) g, sum_over_group total (data self) g)) ?ks))
            [a, b] = Inr [sum_over_group total (data self) a, sum_over_group total (data self) b]"
    using loc_two [OF mem, of "sum_over_group total (data self)"] by (simp add: comp_def)
  show ?thesis
    unfolding test_two_groups_def two groupby_sum_present [OF cnt]
    using c n
    by (simp add: two two_group_outcome_def Let_def split: sum.splits prod.splits)
qed

lemma pair_test_label:
  assumes "pair_test zt self g1 g2 = Inr pr"
  shows "group1 pr = g1 \<and> group2 pr = g2 \<and>
         pair_significance pr =
           (if float_lt (pair_p_value pr) (alpha self) then ''significant''
            else ''not significant'')"
  using assms
  by (auto simp: pair_test_def split: sum.splits prod.splits)

lemma pair_test_eval:
  assumes cnt: "\<forall>r \<in> set (data self). positive_count r = Some (c r)"
    and a: "a \<in> set (map group (data self))" and b: "b \<in> set (map group (data self))"
  shows "pair_test zt self a b =
     pair_outcome (alpha self) a b
       (zt [c (first_row_of (data self) a), c (first_row_of (data self) b)]
           [total (first_row_of (data self) a), total (first_row_of (data self) b)])"
proof -
  from first_row_of_group [OF a] obtain ra where
    ra: "filter (\<lambda>r. group r = a) (data self) = first_row_of (data self) a # ra"
    and ma: "first_row_of (data self) a \<in> set (data self)" by blast
  from first_row_of_group [OF b] obtain rb where
    rb: "filter (\<lambda>r. group r = b) (data self) = first_row_of (data self) b # rb"
    and mb: "first_row_of (data self) b \<in> set (data self)" by blast
  from cnt ma have ca: "positive_count (first_row_of (data self) a) = Some (c (first_row_of (data self) a))"
    by blast
  from cnt mb have cb: "positive_count (first_row_of (data self) b) = Some (c (first_row_of (data self) b))"
    by blast
  show ?thesis
    by (simp add: pair_test_def first_count_def first_total_def ra rb ca cb pair_outcome_def
        split: sum.splits prod.splits)
qed

lemma post_hoc_loop_label:
  assumes "post_hoc_loop zt self ps = Inr prs"
  shows "map (\<lambda>pr. (group1 pr, group2 pr)) prs = ps \<and>
         (\<forall>pr \<in> set prs. pair_significance pr =
           (if float_lt (pair_p_value pr) (alpha self) then ''significant''
            else ''not significant''))"
  using assms
proof (induction ps arbitrary: prs)
  case Nil
  then show ?case by simp
next
  case (Cons q ps)
  obtain g1 g2 where q: "q = (g1, g2)" by (cases q)
  from Cons.prems q obtain r rs where
    r: "pair_test zt self g1 g2 = Inr r" and rs: "post_hoc_loop zt self ps = Inr rs"
    and prs: "prs = r # rs"
    by (auto split: sum.splits)
  from Cons.IH [OF rs] pair_test_label [OF r] prs q show ?case by simp
qed

lemma post_hoc_loop_map:
  assumes "post_hoc_loop zt self ps = Inr prs"
  shows "map Inr prs = map (\<lambda>(a, b). pair_test zt self a b) ps"
  using assms
proof (induction ps arbitrary: prs)
  case Nil
  then show ?case by simp
next
  case (Cons q ps)
  obtain g1 g2 where q: "q = (g1, g2)" by (cases q)
  from Cons.prems q obtain r rs where
    r: "pair_test zt self g1 g2 = Inr r" and rs: "post_hoc_loop zt self ps = Inr rs"
    and prs: "prs = r # rs"
    by (auto split: sum.splits)
  from Cons.IH [OF rs] r prs q show ?case by simp
qed

lemma post_hoc_loop_returns:
  assumes "\<forall>(a, b) \<in> set ps. \<exists>r. pair_test zt self a b = Inr r"
  shows "\<exists>prs. post_hoc_loop zt self ps = Inr prs"
  using assms
proof (induction ps)
  case Nil
  then show ?case by simp
next
  case (Cons q ps)
  obtain g1 g2 where q: "q = (g1, g2)" by (cases q)
  from Cons.prems q obtain r where r: "pair_test zt self g1 g2 = Inr r" by auto
  from Cons.prems have "\<forall>(a, b) \<in> set ps. \<exists>r. pair_test zt self a b = Inr r" by simp
  from Cons.IH [OF this] obtain rs where "post_hoc_loop zt self ps = Inr rs" by blast
  with r q show ?case by simp
qed

lemma post_hoc_test_eval:
  assumes cnt: "\<forall>r \<in> set (data self). positive_count r = Some (c r)"
    and ph: "post_hoc_test zt self = Inr prs"
  shows "map Inr prs =
     map (\<lambda>(a, b). pair_outcome (alpha self) a b
            (zt [c (first_row_of (data self) a), c (first_row_of (data self) b)]
                [total (first_row_of (data self) a), total (first_row_of (data self) b)]))
       (combinations2 (unique (map group (data self))))"
proof -
  from ph have "map Inr prs =
      map (\<lambda>(a, b). pair_test zt self a b) (combinations2 (unique (map group (data self))))"
    by (simp add: post_hoc_test_def post_hoc_loop_map)
  also have "\<dots> = map (\<lambda>(a, b). pair_outcome (alpha self) a b
            (zt [c (first_row_of (data self) a), c (first_row_of (data self) b)]
                [total (first_row_of (data self) a), total (first_row_of (data self) b)]))
       (combinations2 (unique (map group (data self))))"
    using combinations2_labels [of _ _ "data self"] pair_test_eval [OF cnt]
    by (intro map_cong refl) auto
  finally show ?thesis .
qed

lemma post_hoc_test_pairs:
  assumes "post_hoc_test zt self = Inr prs"
  shows "map (\<lambda>pr. (group1 pr, group2 pr)) prs =
           index_pairs (unique (map group (data self))) \<and>
         length prs = card (set (map group (data self))) choose 2"
proof -
  from assms have "post_hoc_loop zt self (combinations2 (unique (map group (data self)))) = Inr prs"
    by (simp add: post_hoc_test_def)
  from post_hoc_loop_label [OF this]
  have eq: "map (\<lambda>pr. (group1 pr, group2 pr)) prs =
      combinations2 (unique (map group (data self)))"
    by simp
  have len: "length prs = length (combinations2 (unique (map group (data self))))"
    using arg_cong [OF eq, of length] by simp
  have "map (\<lambda>pr. (group1 pr, group2 pr)) prs = index_pairs (unique (map group (data self)))"
    using eq by (simp only: combinations2_index_pairs)
  moreover have "length prs = card (set (map group (data self))) choose 2"
    using len by (simp only: length_combinations2 length_unique)
  ultimately show ?thesis ..
qed

lemma post_hoc_test_returns:
  assumes cnt: "\<forall>r \<in> set (data self). positive_count r = Some (c r)"
    and lib: "\<forall>(a, b) \<in> set (combinations2 (unique (map group (data self)))).
       \<exists>y. zt [c (first_row_of (data self) a), c (first_row_of (data self) b)]
               [total (first_row_of (data self) a), total (first_row_of (data self) b)] = Inr y"
  shows "\<exists>prs. post_hoc_test zt self = Inr prs"
proof -
  have "\<exists>r. pair_test zt self a b = Inr r"
    if ab: "(a, b) \<in> set (combinations2 (unique (map group (data self))))" for a b
  proof -
    from combinations2_labels [OF ab]
    have a: "a \<in> set (map group (data self))" and b: "b \<in> set (map group (data self))"
      by simp_all
    have ev: "pair_test zt self a b =
       pair_outcome (alpha self) a b
         (zt [c (first_row_of (data self) a), c (first_row_of (data self) b)]
             [total (first_row_of (data self) a), total (first_row_of (data self) b)])"
      by (rule pair_test_eval [OF cnt a b])
    from lib ab obtain y where
      "zt [c (first_row_of (data self) a), c (first_row_of (data self) b)]
          [total (first_row_of (data self) a), total (first_row_of (data self) b)] = Inr y"
      by fastforce
    with ev show ?thesis
      by (cases y) (simp add: pair_outcome_def)
  qed
  then have "\<forall>(a, b) \<in> set (combinations2 (unique (map group (data self)))).
      \<exists>r. pair_test zt self a b = Inr r"
    by blast
  from post_hoc_loop_returns [OF this] show ?thesis
    by (simp add: post_hoc_test_def)
qed

lemma multiple_groups_label:
  assumes "test_multiple_groups chi zt self = Inr (name, res)"
  shows "name = ''Chi-Square Test'' \<and>
         significance res =
           (if float_lt (p_value res) (alpha self) then ''significant'' else ''not significant'') \<and>
         (float_lt (p_value res) (alpha self) \<longrightarrow> (\<exists>prs. post_hoc_test zt self = Inr prs \<and> pairwise res = Some prs)) \<and>
         (\<not> float_lt (p_value res) (alpha self) \<longrightarrow> pairwise res = None)"
  using assms
  by (auto simp: test_multiple_groups_def Let_def split: sum.splits prod.splits if_splits)

lemma multiple_groups_eval:
  assumes cnt: "\<forall>r \<in> set (data self). positive_count r = Some (c r)"
  shows "test_multiple_groups chi zt self =
     multi_group_outcome (alpha self) (chi (summed_table c (data self))) (post_hoc_test zt self)"
  by (simp add: test_multiple_groups_def groupby_sum_present [OF cnt] observed_table_def
      summed_table_def multi_group_outcome_def comp_def Let_def
      split: sum.splits prod.splits)

subsection \<open>The sample frames, evaluated\<close>

lemma three_groups_data:
  "data three_groups =
     [\<lparr>group = ''C'', positive_rate = 25, total = 1000, positive_count = Some 250\<rparr>,
      \<lparr>group = ''A'', positive_rate = 5, total = 1000, positive_count = Some 50\<rparr>,
      \<lparr>group = ''B'', positive_rate = 5, total = 1000, positive_count = Some 50\<rparr>]"
  "alpha three_groups = 5 / 100"
  by (simp_all add: three_groups_def calculate_counts_def mk_tool_def mk_row_def count_of_def
      round_half_even_def)

lemma three_groups_run:
  "test_multiple_groups sample_chi2 sample_ztest three_groups =
     Inr (''Chi-Square Test'', three_result)"
  by (simp add: three_groups_data test_multiple_groups_def post_hoc_test_def pair_test_def
      first_count_def first_total_def groupby_sum_def group_sum_def observed_table_def
      sample_ztest_def sample_chi2_def three_result_def Let_def)

lemma three_groups_table:
  "summed_table count_of (data three_groups) = [[50, 950], [50, 950], [250, 750]]"
  by (simp add: three_groups_data summed_table_def sum_over_group_def count_of_def
      round_half_even_def)

lemma repeated_group_data:
  "data repeated_group =
     [\<lparr>group = ''A'', positive_rate = 10, total = 100, positive_count = Some 10\<rparr>,
      \<lparr>group = ''B'', positive_rate = 20, total = 100, positive_count = Some 20\<rparr>,
      \<lparr>group = ''A'', positive_rate = 50, total = 100, positive_count = Some 50\<rparr>]"
  "alpha repeated_group = 5 / 100"
  by (simp_all add: repeated_group_def calculate_counts_def mk_tool_def mk_row_def count_of_def
      round_half_even_def)

lemma swap_rows_A_run:
  "test_two_groups sample_ztest swap_rows_A =
     Inr (''Proportions Z-Test'',
          \<lparr>statistic = Fin (- (1 / 20)), p_value = Fin (19 / 20),
           significance = ''not significant'', pairwise = None\<rparr>)"
  by (simp add: swap_rows_A_def mk_tool_def mk_row_def calculate_counts_def count_of_def
      round_half_even_def test_two_groups_def groupby_sum_def group_sum_def
      sample_ztest_def Let_def)

lemma three_groups_post_hoc:
  "post_hoc_test sample_ztest three_groups =
     Inr [\<lparr>group1 = ''C'', group2 = ''A'', pair_statistic = Fin (1 / 5),
           pair_p_value = Fin (4 / 5), pair_significance = ''not significant''\<rparr>,
          \<lparr>group1 = ''C'', group2 = ''B'', pair_statistic = Fin (1 / 5),
           pair_p_value = Fin (4 / 5), pair_significance = ''not significant''\<rparr>,
          \<lparr>group1 = ''A'', group2 = ''B'', pair_statistic = Fin 0,
           pair_p_value = Fin 1, pair_significance = ''not significant''\<rparr>]"
  by (simp add: three_groups_data post_hoc_test_def pair_test_def first_count_def
      first_total_def sample_ztest_def)

subsection \<open>The pooled z-test under a swap\<close>

lemma pooled_z_swap: "pooled_z c1 c0 n1 n0 = - pooled_z c0 c1 n0 n1"
proof -
  have "(of_int c1 / of_int n1 - of_int c0 / of_int n0 :: real) =
        - (of_int c0 / of_int n0 - of_int c1 / of_int n1)"
    by simp
  then show ?thesis
    unfolding pooled_z_def Let_def
    by (simp only: add.commute [of c1 c0] add.commute [of n1 n0]
        add.commute [of "1 / of_int n1" "1 / of_int n0"] minus_divide_left)
qed

lemma reference_implements: "implements_pooled_ztest tail (reference_ztest tail)"
  by (simp add: implements_pooled_ztest_def reference_ztest_def)

subsection \<open>The significance label\<close>

text \<open>
  C1. In every result that a tester returns, the label is \<open>significant\<close> exactly when the
  p-value is strictly below \<open>alpha\<close>: for the two-group z-test, for the chi-square test
  and for every pairwise result of the post-hoc comparison. A NaN p-value compares
  false and is labelled \<open>not significant\<close>. The statement holds for every \<open>alpha\<close>, so
  for those in (0,1).
\<close>

theorem significance_threshold:
  "(\<forall>name res. test_two_groups zt self = Inr (name, res) \<longrightarrow>
      (significance res = ''significant'') = float_lt (p_value res) (alpha self)) \<and>
   (\<forall>name res. test_multiple_groups chi zt self = Inr (name, res) \<longrightarrow>
      (significance res = ''significant'') = float_lt (p_value res) (alpha self)) \<and>
   (\<forall>prs. post_hoc_test zt self = Inr prs \<longrightarrow>
      (\<forall>pr \<in> set prs.
        (pair_significance pr = ''significant'') = float_lt (pair_p_value pr) (alpha self)))"
proof (intro conjI allI impI)
  fix name res assume "test_two_groups zt self = Inr (name, res)"
  from two_groups_label [OF this]
  show "(significance res = ''significant'') = float_lt (p_value res) (alpha self)" by simp
next
  fix name res assume "test_multiple_groups chi zt self = Inr (name, res)"
  from multiple_groups_label [OF this]
  show "(significance res = ''significant'') = float_lt (p_value res) (alpha self)" by simp
next
  fix prs assume "post_hoc_test zt self = Inr prs"
  then have "post_hoc_loop zt self (combinations2 (unique (map group (data self)))) = Inr prs"
    by (simp add: post_hoc_test_def)
  from post_hoc_loop_label [OF this]
  show "\<forall>pr \<in> set prs.
        (pair_significance pr = ''significant'') = float_lt (pair_p_value pr) (alpha self)"
    by simp
qed

theorem significance_threshold_witness:
  "(significance
      \<lparr>statistic = Fin (- (1 / 20)), p_value = Fin (19 / 20),
       significance = ''not significant'', pairwise = None\<rparr> = ''significant'') =
     float_lt (Fin (19 / 20)) (alpha swap_rows_A) \<and>
   (significance three_result = ''significant'') =
     float_lt (p_value three_result) (alpha three_groups) \<and>
   (pair_significance
      \<lparr>group1 = ''A'', group2 = ''B'', pair_statistic = Fin 0,
       pair_p_value = Fin 1, pair_significance = ''not significant''\<rparr> = ''significant'') =
     float_lt (Fin 1) (alpha three_groups)"
proof -
  note T = significance_threshold [of sample_ztest swap_rows_A]
  note U = significance_threshold [of sample_ztest three_groups sample_chi2]
  have one: "(significance
      \<lparr>statistic = Fin (- (1 / 20)), p_value = Fin (19 / 20),
       significance = ''not significant'', pairwise = None\<rparr> = ''significant'') =
     float_lt (Fin (19 / 20)) (alpha swap_rows_A)"
    using T [THEN conjunct1, rule_format, OF swap_rows_A_run] by simp
  have two: "(significance three_result = ''significant'') =
     float_lt (p_value three_result) (alpha three_groups)"
    by (rule U [THEN conjunct2, THEN conjunct1, rule_format, OF three_groups_run])
  have three: "(pair_significance
      \<lparr>group1 = ''A'', group2 = ''B'', pair_statistic = Fin 0,
       pair_p_value = Fin 1, pair_significance = ''not significant''\<rparr> = ''significant'') =
     float_lt (Fin 1) (alpha three_groups)"
  proof -
    have "\<lparr>group1 = ''A'', group2 = ''B'', pair_statistic = Fin 0,
       pair_p_value = Fin 1, pair_significance = ''not significant''\<rparr>
      \<in> set [\<lparr>group1 = ''C'', group2 = ''A'', pair_statistic = Fin (1 / 5),
           pair_p_value = Fin (4 / 5), pair_significance = ''not significant''\<rparr>,
          \<lparr>group1 = ''C'', group2 = ''B'', pair_statistic = Fin (1 / 5),
           pair_p_value = Fin (4 / 5), pair_significance = ''not significant''\<rparr>,
          \<lparr>group1 = ''A'', group2 = ''B'', pair_statistic = Fin 0,
           pair_p_value = Fin 1, pair_significance = ''not significant''\<rparr>]"
      by simp
    from U [THEN conjunct2, THEN conjunct2, rule_format, OF three_groups_post_hoc this]
    show ?thesis by simp
  qed
  from one two three show ?thesis
    by (intro conjI)
qed

subsection \<open>The Orchestrator\<close>

text \<open>
  C2. \<open>run\<close> aggregates first and then dispatches on the number of distinct group
  labels: with exactly 2 it returns what \<open>test_two_groups\<close> returns on the aggregated
  frame, under the name \<open>Proportions Z-Test\<close>; with any other number, 1 included, what
  \<open>test_multiple_groups\<close> returns, under the name \<open>Chi-Square Test\<close>. The outcome is the
  record of \<open>test_used\<close> and \<open>results\<close>, which is also stored in the tool; an exception
  of the tester is passed on and leaves the stored results as they were.
\<close>

theorem run_dispatch:
  "(card (set (map group (data self))) = 2 \<longrightarrow>
        fst (run chi zt self) =
          wrap_result ''Proportions Z-Test'' (test_two_groups zt (calculate_counts self))) \<and>
     (card (set (map group (data self))) \<noteq> 2 \<longrightarrow>
        fst (run chi zt self) =
          wrap_result ''Chi-Square Test'' (test_multiple_groups chi zt (calculate_counts self))) \<and>
     self_results (snd (run chi zt self)) =
       (case fst (run chi zt self) of Inl e \<Rightarrow> self_results self | Inr rr \<Rightarrow> Some rr)"
proof (intro conjI impI)
  assume "card (set (map group (data self))) = 2"
  then have two: "length (unique (map group (data (calculate_counts self)))) = 2"
    by (simp add: length_unique group_calculate_counts)
  show "fst (run chi zt self) =
          wrap_result ''Proportions Z-Test'' (test_two_groups zt (calculate_counts self))"
  proof (cases "test_two_groups zt (calculate_counts self)")
    case (Inl e)
    then show ?thesis using two by (simp add: run_def Let_def wrap_result_def)
  next
    case (Inr y)
    obtain name res where y: "y = (name, res)" by (cases y)
    from Inr y two_groups_label [of zt "calculate_counts self" name res]
    have "name = ''Proportions Z-Test''" by simp
    with Inr y two show ?thesis by (simp add: run_def Let_def wrap_result_def)
  qed
next
  assume "card (set (map group (data self))) \<noteq> 2"
  then have two: "length (unique (map group (data (calculate_counts self)))) \<noteq> 2"
    by (simp add: length_unique group_calculate_counts)
  show "fst (run chi zt self) =
          wrap_result ''Chi-Square Test'' (test_multiple_groups chi zt (calculate_counts self))"
  proof (cases "test_multiple_groups chi zt (calculate_counts self)")
    case (Inl e)
    then show ?thesis using two by (simp add: run_def Let_def wrap_result_def)
  next
    case (Inr y)
    obtain name res where y: "y = (name, res)" by (cases y)
    from Inr y multiple_groups_label [of chi zt "calculate_counts self" name res]
    have "name = ''Chi-Square Test''" by simp
    with Inr y two show ?thesis by (simp add: run_def Let_def wrap_result_def)
  qed
next
  show "self_results (snd (run chi zt self)) =
       (case fst (run chi zt self) of Inl e \<Rightarrow> self_results self | Inr rr \<Rightarrow> Some rr)"
    by (simp add: run_def Let_def calculate_counts_def split: sum.splits prod.splits)
qed

theorem run_dispatch_witness:
  "fst (run sample_chi2 sample_ztest (mk_tool [mk_row ''B'' 10 100, mk_row ''A'' 20 100])) =
     Inr \<lparr>test_used = ''Proportions Z-Test'',
          results = \<lparr>statistic = Fin (- (1 / 10)), p_value = Fin (9 / 10),
                     significance = ''not significant'', pairwise = None\<rparr>\<rparr> \<and>
   fst (run sample_chi2 sample_ztest (mk_tool [mk_row ''A'' 20 100])) =
     Inr \<lparr>test_used = ''Chi-Square Test'',
          results = \<lparr>statistic = Fin 1, p_value = Fin (1 / 100),
                     significance = ''significant'', pairwise = Some []\<rparr>\<rparr>"
proof -
  have a: "test_two_groups sample_ztest
             (calculate_counts (mk_tool [mk_row ''B'' 10 100, mk_row ''A'' 20 100])) =
           Inr (''Proportions Z-Test'',
                \<lparr>statistic = Fin (- (1 / 10)), p_value = Fin (9 / 10),
                 significance = ''not significant'', pairwise = None\<rparr>)"
    by (simp add: mk_tool_def mk_row_def calculate_counts_def count_of_def
        round_half_even_def test_two_groups_def groupby_sum_def group_sum_def
        sample_ztest_def Let_def)
  have b: "test_multiple_groups sample_chi2 sample_ztest
             (calculate_counts (mk_tool [mk_row ''A'' 20 100])) =
           Inr (''Chi-Square Test'',
                \<lparr>statistic = Fin 1, p_value = Fin (1 / 100),
                 significance = ''significant'', pairwise = Some []\<rparr>)"
    by (simp add: mk_tool_def mk_row_def calculate_counts_def count_of_def
        round_half_even_def test_multiple_groups_def post_hoc_test_def groupby_sum_def
        group_sum_def observed_table_def sample_chi2_def Let_def)
  show ?thesis
    using run_dispatch [of "mk_tool [mk_row ''B'' 10 100, mk_row ''A'' 20 100]"
        sample_chi2 sample_ztest]
      run_dispatch [of "mk_tool [mk_row ''A'' 20 100]" sample_chi2 sample_ztest]
    by (simp add: a b wrap_result_def) (simp add: mk_tool_def mk_row_def)
qed

subsection \<open>The Post-Hoc Comparator\<close>

text \<open>
  C4. On a frame with at least three distinct labels, a result of
  \<open>test_multiple_groups\<close> carries pairwise results exactly when its p-value is strictly
  below \<open>alpha\<close>. The pairwise results are then \<open>C(n,2)\<close> many for \<open>n\<close> distinct labels,
  one for each pair of labels \<open>(xs ! i, xs ! j)\<close> with \<open>i < j\<close>, where \<open>xs\<close> lists the
  distinct labels in order of first appearance. Given the statistic and p-value of the
  chi-square routine: when the p-value is not below \<open>alpha\<close>, the tester returns the
  result without pairwise results, whatever the z-test routine would do; when it is
  below and the z-test routine returns on the first rows of every pair, the tester
  returns the result with its pairwise results.
\<close>

theorem post_hoc_pairs:
  assumes cnt: "\<forall>r \<in> set (data self). positive_count r = Some (c r)"
    and three: "3 \<le> card (set (map group (data self)))"
  shows
    "(\<forall>name res. test_multiple_groups chi zt self = Inr (name, res) \<longrightarrow>
        (pairwise res \<noteq> None) = float_lt (p_value res) (alpha self) \<and>
        (\<forall>prs. pairwise res = Some prs \<longrightarrow>
           length prs = card (set (map group (data self))) choose 2 \<and>
           map (\<lambda>pr. (group1 pr, group2 pr)) prs =
             index_pairs (unique (map group (data self))))) \<and>
     distinct (unique (map group (data self))) \<and>
     (\<forall>x2 p. chi (summed_table c (data self)) = Inr (x2, p) \<longrightarrow>
        (\<not> float_lt p (alpha self) \<longrightarrow>
           test_multiple_groups chi zt self =
             Inr (''Chi-Square Test'',
                  \<lparr>statistic = x2, p_value = p, significance = ''not significant'',
                   pairwise = None\<rparr>)) \<and>
        (float_lt p (alpha self) \<and>
         (\<forall>(a, b) \<in> set (combinations2 (unique (map group (data self)))).
            \<exists>y. zt [c (first_row_of (data self) a), c (first_row_of (data self) b)]
                    [total (first_row_of (data self) a), total (first_row_of (data self) b)]
                 = Inr y) \<longrightarrow>
           (\<exists>prs. test_multiple_groups chi zt self =
              Inr (''Chi-Square Test'',
                   \<lparr>statistic = x2, p_value = p, significance = ''significant'',
                    pairwise = Some prs\<rparr>))))"
proof (intro conjI allI impI)
  fix name res
  assume ret: "test_multiple_groups chi zt self = Inr (name, res)"
  from multiple_groups_label [OF ret]
  show "(pairwise res \<noteq> None) = float_lt (p_value res) (alpha self)"
    by auto
next
  fix name res prs
  assume ret: "test_multiple_groups chi zt self = Inr (name, res)"
    and prs: "pairwise res = Some prs"
  from multiple_groups_label [OF ret] prs
  have "post_hoc_test zt self = Inr prs"
    by (cases "float_lt (p_value res) (alpha self)") auto
  from post_hoc_test_pairs [OF this]
  show "length prs = card (set (map group (data self))) choose 2"
    and "map (\<lambda>pr. (group1 pr, group2 pr)) prs = index_pairs (unique (map group (data self)))"
    by simp_all
next
  show "distinct (unique (map group (data self)))"
    by (rule distinct_unique)
next
  fix x2 p
  assume chi: "chi (summed_table c (data self)) = Inr (x2, p)"
    and ns: "\<not> float_lt p (alpha self)"
  then show "test_multiple_groups chi zt self =
             Inr (''Chi-Square Test'',
                  \<lparr>statistic = x2, p_value = p, significance = ''not significant'',
                   pairwise = None\<rparr>)"
    by (simp add: multiple_groups_eval [OF cnt] multi_group_outcome_def)
next
  fix x2 p
  assume chi: "chi (summed_table c (data self)) = Inr (x2, p)"
    and sg: "float_lt p (alpha self) \<and>
         (\<forall>(a, b) \<in> set (combinations2 (unique (map group (data self)))).
            \<exists>y. zt [c (first_row_of (data self) a), c (first_row_of (data self) b)]
                    [total (first_row_of (data self) a), total (first_row_of (data self) b)]
                 = Inr y)"
  from sg have lib: "\<forall>(a, b) \<in> set (combinations2 (unique (map group (data self)))).
            \<exists>y. zt [c (first_row_of (data self) a), c (first_row_of (data self) b)]
                    [total (first_row_of (data self) a), total (first_row_of (data self) b)]
                 = Inr y" ..
  from post_hoc_test_returns [OF cnt lib] obtain prs where
    prs: "post_hoc_test zt self = Inr prs" ..
  from sg have "float_lt p (alpha self)" ..
  then have "test_multiple_groups chi zt self =
              Inr (''Chi-Square Test'',
                   \<lparr>statistic = x2, p_value = p, significance = ''significant'',
                    pairwise = Some prs\<rparr>)"
    by (simp add: multiple_groups_eval [OF cnt] chi prs multi_group_outcome_def)
  then show "\<exists>prs. test_multiple_groups chi zt self =
              Inr (''Chi-Square Test'',
                   \<lparr>statistic = x2, p_value = p, significance = ''significant'',
                    pairwise = Some prs\<rparr>)" ..
qed

theorem post_hoc_pairs_witness:
  "sample_chi2 [[50, 950], [50, 950], [250, 750]] = Inr (Fin 3, Fin (1 / 100)) \<and>
   float_lt (Fin (1 / 100)) (alpha three_groups) \<and>
   test_multiple_groups sample_chi2 sample_ztest three_groups =
     Inr (''Chi-Square Test'', three_result) \<and>
   (\<exists>prs. pairwise three_result = Some prs \<and> length prs = 3 choose 2 \<and>
      map (\<lambda>pr. (group1 pr, group2 pr)) prs = index_pairs [''C'', ''A'', ''B'']) \<and>
   (\<exists>prs. test_multiple_groups sample_chi2 sample_ztest three_groups =
      Inr (''Chi-Square Test'',
           \<lparr>statistic = Fin 3, p_value = Fin (1 / 100), significance = ''significant'',
            pairwise = Some prs\<rparr>))"
proof -
  have cnt: "\<forall>r \<in> set (data three_groups). positive_count r = Some (count_of r)"
    by (simp add: three_groups_def calculate_counts_def count_of_def)
  have lab: "unique (map group (data three_groups)) = [''C'', ''A'', ''B'']"
    by (simp add: three_groups_data)
  have card: "card (set (map group (data three_groups))) = 3"
    by (simp add: three_groups_data)
  then have three: "3 \<le> card (set (map group (data three_groups)))"
    by simp
  have chi: "sample_chi2 [[50, 950], [50, 950], [250, 750]] = Inr (Fin 3, Fin (1 / 100))"
    by (simp add: sample_chi2_def)
  then have chi': "sample_chi2 (summed_table count_of (data three_groups)) =
      Inr (Fin 3, Fin (1 / 100))"
    by (simp only: three_groups_table)
  have sig: "float_lt (Fin (1 / 100)) (alpha three_groups)"
    by (simp add: three_groups_data)
  have lib: "\<forall>(a, b) \<in> set (combinations2 (unique (map group (data three_groups)))).
      \<exists>y. sample_ztest
             [count_of (first_row_of (data three_groups) a),
              count_of (first_row_of (data three_groups) b)]
             [total (first_row_of (data three_groups) a),
              total (first_row_of (data three_groups) b)] = Inr y"
    by (simp add: sample_ztest_def)
  note T = post_hoc_pairs [OF cnt three, of sample_chi2 sample_ztest]
  note R = T [THEN conjunct1, rule_format, OF three_groups_run]
  have prs: "pairwise three_result = Some (the (pairwise three_result))"
    by (simp add: three_result_def)
  from R [THEN conjunct2, rule_format, OF prs]
  have pairs: "length (the (pairwise three_result)) = 3 choose 2 \<and>
      map (\<lambda>pr. (group1 pr, group2 pr)) (the (pairwise three_result)) =
        index_pairs [''C'', ''A'', ''B'']"
    by (simp only: lab card)
  from T [THEN conjunct2, THEN conjunct2, rule_format, OF chi', THEN conjunct2,
      rule_format, OF conjI [OF sig lib]]
  have ret: "\<exists>prs. test_multiple_groups sample_chi2 sample_ztest three_groups =
      Inr (''Chi-Square Test'',
           \<lparr>statistic = Fin 3, p_value = Fin (1 / 100), significance = ''significant'',
            pairwise = Some prs\<rparr>)" .
  from chi sig three_groups_run prs pairs ret show ?thesis
    by blast
qed

subsection \<open>Rows of one group: summed or first\<close>

text \<open>
  C6. On a frame that has its counts, the two-group tester hands the z-test the sums
  of \<open>positive_count\<close> and of the totals over all rows of each group, and the
  multi-group tester hands the chi-square test the table of those sums; every pairwise
  result of the post-hoc comparison comes from the z-test on the counts and totals of
  the first row of each of the two groups.
\<close>

theorem aggregation_asymmetry:
  assumes cnt: "\<forall>r \<in> set (data self). positive_count r = Some (c r)"
  shows
    "(\<forall>a b. unique (map group (data self)) = [a, b] \<longrightarrow>
        test_two_groups zt self =
          two_group_outcome (alpha self)
            (zt [sum_over_group c (data self) a, sum_over_group c (data self) b]
                [sum_over_group total (data self) a, sum_over_group total (data self) b])) \<and>
     test_multiple_groups chi zt self =
       multi_group_outcome (alpha self) (chi (summed_table c (data self)))
         (post_hoc_test zt self) \<and>
     (\<forall>prs. post_hoc_test zt self = Inr prs \<longrightarrow>
        map Inr prs =
          map (\<lambda>(a, b). pair_outcome (alpha self) a b
                 (zt [c (first_row_of (data self) a), c (first_row_of (data self) b)]
                     [total (first_row_of (data self) a), total (first_row_of (data self) b)]))
            (combinations2 (unique (map group (data self)))))"
proof (intro conjI allI impI)
  fix a b assume "unique (map group (data self)) = [a, b]"
  then show "test_two_groups zt self =
          two_group_outcome (alpha self)
            (zt [sum_over_group c (data self) a, sum_over_group c (data self) b]
                [sum_over_group total (data self) a, sum_over_group total (data self) b])"
    by (rule two_groups_eval [OF cnt])
next
  show "test_multiple_groups chi zt self =
       multi_group_outcome (alpha self) (chi (summed_table c (data self)))
         (post_hoc_test zt self)"
    by (rule multiple_groups_eval [OF cnt])
next
  fix prs assume "post_hoc_test zt self = Inr prs"
  then show "map Inr prs =
          map (\<lambda>(a, b). pair_outcome (alpha self) a b
                 (zt [c (first_row_of (data self) a), c (first_row_of (data self) b)]
                     [total (first_row_of (data self) a), total (first_row_of (data self) b)]))
            (combinations2 (unique (map group (data self))))"
    by (rule post_hoc_test_eval [OF cnt])
qed

theorem aggregation_asymmetry_witness:
  "test_two_groups sample_ztest repeated_group =
     two_group_outcome (5 / 100) (sample_ztest [60, 20] [200, 100]) \<and>
   test_multiple_groups sample_chi2 sample_ztest repeated_group =
     multi_group_outcome (5 / 100) (sample_chi2 [[60, 140], [20, 80]])
       (post_hoc_test sample_ztest repeated_group) \<and>
   post_hoc_test sample_ztest repeated_group =
     Inr [\<lparr>group1 = ''A'', group2 = ''B'', pair_statistic = Fin (- (1 / 10)),
           pair_p_value = Fin (9 / 10), pair_significance = ''not significant''\<rparr>] \<and>
   [Inr \<lparr>group1 = ''A'', group2 = ''B'', pair_statistic = Fin (- (1 / 10)),
          pair_p_value = Fin (9 / 10), pair_significance = ''not significant''\<rparr>] =
     [pair_outcome (5 / 100) ''A'' ''B'' (sample_ztest [10, 20] [100, 100])]"
proof -
  have cnt: "\<forall>r \<in> set (data repeated_group). positive_count r = Some (count_of r)"
    by (simp add: repeated_group_def calculate_counts_def count_of_def)
  have lab: "unique (map group (data repeated_group)) = [''A'', ''B'']"
    by (simp add: repeated_group_data)
  have sums: "sum_over_group count_of (data repeated_group) ''A'' = 60"
    "sum_over_group count_of (data repeated_group) ''B'' = 20"
    "sum_over_group total (data repeated_group) ''A'' = 200"
    "sum_over_group total (data repeated_group) ''B'' = 100"
    by (simp_all add: repeated_group_data sum_over_group_def count_of_def round_half_even_def)
  have tbl: "summed_table count_of (data repeated_group) = [[60, 140], [20, 80]]"
    by (simp add: summed_table_def lab sums)
  have firsts: "first_row_of (data repeated_group) ''A'' =
      \<lparr>group = ''A'', positive_rate = 10, total = 100, positive_count = Some 10\<rparr>"
    "first_row_of (data repeated_group) ''B'' =
      \<lparr>group = ''B'', positive_rate = 20, total = 100, positive_count = Some 20\<rparr>"
    by (simp_all add: repeated_group_data first_row_of_def)
  have ph: "post_hoc_test sample_ztest repeated_group =
     Inr [\<lparr>group1 = ''A'', group2 = ''B'', pair_statistic = Fin (- (1 / 10)),
           pair_p_value = Fin (9 / 10), pair_significance = ''not significant''\<rparr>]"
    by (simp add: repeated_group_data post_hoc_test_def pair_test_def first_count_def
        first_total_def sample_ztest_def)
  note T = aggregation_asymmetry [OF cnt, of sample_ztest sample_chi2]
  have one: "test_two_groups sample_ztest repeated_group =
     two_group_outcome (5 / 100) (sample_ztest [60, 20] [200, 100])"
    using T [THEN conjunct1, rule_format, OF lab]
    by (simp only: sums repeated_group_data(2))
  have two: "test_multiple_groups sample_chi2 sample_ztest repeated_group =
     multi_group_outcome (5 / 100) (sample_chi2 [[60, 140], [20, 80]])
       (post_hoc_test sample_ztest repeated_group)"
    using T [THEN conjunct2, THEN conjunct1]
    by (simp only: tbl repeated_group_data(2))
  have three: "[Inr \<lparr>group1 = ''A'', group2 = ''B'', pair_statistic = Fin (- (1 / 10)),
          pair_p_value = Fin (9 / 10), pair_significance = ''not significant''\<rparr>] =
     [pair_outcome (5 / 100) ''A'' ''B'' (sample_ztest [10, 20] [100, 100])]"
    using T [THEN conjunct2, THEN conjunct2, rule_format, OF ph]
    by (simp add: lab firsts count_of_def round_half_even_def repeated_group_data(2))
  from one two ph three show ?thesis
    by (intro conjI)
qed

subsection \<open>Swapping the two groups\<close>

text \<open>
  C7. Let the z-test routine implement the pooled test, and let two frames hold the
  same rows, one with the first-appearance order of the two labels \<open>(a, b)\<close>, the
  other \<open>(b, a)\<close>, the group sums being valid counts. Then \<open>test_two_groups\<close> returns
  on both, with the same p-value and the same label, and with statistics \<open>z\<close> and
  \<open>- z\<close>.
\<close>

theorem two_group_swap:
  assumes lib: "implements_pooled_ztest tail zt"
    and cnt: "\<forall>r \<in> set (data self). positive_count r = Some (c r)"
    and perm: "mset (data self') = mset (data self)"
    and al: "alpha self' = alpha self"
    and ab: "unique (map group (data self)) = [a, b]"
    and ba: "unique (map group (data self')) = [b, a]"
    and valid: "valid_counts (sum_over_group c (data self) a) (sum_over_group c (data self) b)
                  (sum_over_group total (data self) a) (sum_over_group total (data self) b)"
  shows "\<exists>z p lab.
      test_two_groups zt self =
        Inr (''Proportions Z-Test'',
             \<lparr>statistic = Fin z, p_value = Fin p, significance = lab, pairwise = None\<rparr>) \<and>
      test_two_groups zt self' =
        Inr (''Proportions Z-Test'',
             \<lparr>statistic = Fin (- z), p_value = Fin p, significance = lab, pairwise = None\<rparr>) \<and>
      z = pooled_z (sum_over_group c (data self) a) (sum_over_group c (data self) b)
            (sum_over_group total (data self) a) (sum_over_group total (data self) b) \<and>
      p = 2 * tail \<bar>z\<bar> \<and>
      lab = (if p < alpha self then ''significant'' else ''not significant'')"
proof -
  let ?ca = "sum_over_group c (data self) a" and ?cb = "sum_over_group c (data self) b"
  let ?na = "sum_over_group total (data self) a" and ?nb = "sum_over_group total (data self) b"
  let ?z = "pooled_z ?ca ?cb ?na ?nb"
  from perm have "set (data self') = set (data self)"
    by (rule mset_eq_setD)
  with cnt have cnt': "\<forall>r \<in> set (data self'). positive_count r = Some (c r)"
    by simp
  have sums: "sum_over_group f (data self') g = sum_over_group f (data self) g" for f g
    by (rule sum_over_group_mset [OF perm])
  from lib have inst: "valid_counts c0 c1 n0 n1 \<Longrightarrow>
      zt [c0, c1] [n0, n1] =
        Inr (Fin (pooled_z c0 c1 n0 n1), Fin (2 * tail \<bar>pooled_z c0 c1 n0 n1\<bar>))"
    for c0 c1 n0 n1
    unfolding implements_pooled_ztest_def by blast
  have fwd: "zt [?ca, ?cb] [?na, ?nb] = Inr (Fin ?z, Fin (2 * tail \<bar>?z\<bar>))"
    by (rule inst [OF valid])
  have valid': "valid_counts ?cb ?ca ?nb ?na"
    using valid unfolding valid_counts_def by auto
  have neg: "pooled_z ?cb ?ca ?nb ?na = - ?z"
    by (rule pooled_z_swap)
  have bwd: "zt [?cb, ?ca] [?nb, ?na] = Inr (Fin (- ?z), Fin (2 * tail \<bar>?z\<bar>))"
    using inst [OF valid'] by (simp only: neg abs_minus_cancel)
  have one: "test_two_groups zt self =
      Inr (''Proportions Z-Test'',
           \<lparr>statistic = Fin ?z, p_value = Fin (2 * tail \<bar>?z\<bar>),
            significance = (if 2 * tail \<bar>?z\<bar> < alpha self then ''significant''
                            else ''not significant''),
            pairwise = None\<rparr>)"
    by (simp add: two_groups_eval [OF cnt ab] fwd two_group_outcome_def)
  have two: "test_two_groups zt self' =
      Inr (''Proportions Z-Test'',
           \<lparr>statistic = Fin (- ?z), p_value = Fin (2 * tail \<bar>?z\<bar>),
            significance = (if 2 * tail \<bar>?z\<bar> < alpha self then ''significant''
                            else ''not significant''),
            pairwise = None\<rparr>)"
    by (simp add: two_groups_eval [OF cnt' ba] sums bwd al two_group_outcome_def)
  from one two show ?thesis by blast
qed

theorem two_group_swap_witness:
  "\<exists>z p lab.
      test_two_groups (reference_ztest sample_tail) swap_rows_A =
        Inr (''Proportions Z-Test'',
             \<lparr>statistic = Fin z, p_value = Fin p, significance = lab, pairwise = None\<rparr>) \<and>
      test_two_groups (reference_ztest sample_tail) swap_rows_B =
        Inr (''Proportions Z-Test'',
             \<lparr>statistic = Fin (- z), p_value = Fin p, significance = lab, pairwise = None\<rparr>) \<and>
      z = pooled_z 100 150 1000 1000 \<and>
      p = 2 * sample_tail \<bar>z\<bar> \<and>
      lab = (if p < 5 / 100 then ''significant'' else ''not significant'')"
proof -
  have cnt: "\<forall>r \<in> set (data swap_rows_A). positive_count r = Some (count_of r)"
    by (simp add: swap_rows_A_def calculate_counts_def count_of_def)
  have perm: "mset (data swap_rows_B) = mset (data swap_rows_A)"
    by (simp add: swap_rows_A_def swap_rows_B_def calculate_counts_def mk_tool_def)
  have al: "alpha swap_rows_B = alpha swap_rows_A" "alpha swap_rows_A = 5 / 100"
    by (simp_all add: swap_rows_A_def swap_rows_B_def calculate_counts_def mk_tool_def)
  have ab: "unique (map group (data swap_rows_A)) = [''A'', ''B'']"
    by (simp add: swap_rows_A_def calculate_counts_def mk_tool_def mk_row_def)
  have ba: "unique (map group (data swap_rows_B)) = [''B'', ''A'']"
    by (simp add: swap_rows_B_def calculate_counts_def mk_tool_def mk_row_def)
  have sums: "sum_over_group count_of (data swap_rows_A) ''A'' = 100"
    "sum_over_group count_of (data swap_rows_A) ''B'' = 150"
    "sum_over_group total (data swap_rows_A) ''A'' = 1000"
    "sum_over_group total (data swap_rows_A) ''B'' = 1000"
    by (simp_all add: swap_rows_A_def calculate_counts_def mk_tool_def mk_row_def
        sum_over_group_def count_of_def round_half_even_def)
  have valid: "valid_counts 100 150 1000 1000"
    by (simp add: valid_counts_def)
  show ?thesis
    using two_group_swap [OF reference_implements cnt perm al(1) ab ba, of sample_tail]
      valid
    by (simp add: sums al(2))
qed

subsection \<open>A group with zero total\<close>




end
